theory Spec2Isabelle
  imports Main "HOL-Library.Sublist"
begin

section \<open>Strings and paths\<close>

text \<open>
  The script \<^verbatim>\<open>convert_to_onnx.py\<close> works on Python \<^verbatim>\<open>str\<close> values: paths and
  printed lines. They are modelled as \<^typ>\<open>string\<close>, a list of bytes. The patterns the
  script searches for (\<^verbatim>\<open>.pt\<close> and the separator) are ASCII, so searching the UTF-8
  bytes finds the same occurrences as searching the code points.
\<close>

type_synonym path = string

text \<open>
  \<^verbatim>\<open>s.replace(old, new)\<close>: every non-overlapping occurrence of \<^verbatim>\<open>old\<close> in
  \<^verbatim>\<open>s\<close>, scanning from the left, is replaced by \<^verbatim>\<open>new\<close>. With an empty
  \<^verbatim>\<open>old\<close> Python puts \<^verbatim>\<open>new\<close> before every character and at the end.
\<close>

fun replace :: "string \<Rightarrow> string \<Rightarrow> string \<Rightarrow> string" where
  "replace old new [] = (if old = [] then new else [])"
| "replace old new (c # cs) =
     (if old = [] then new @ c # replace old new cs
      else if prefix old (c # cs) then new @ replace old new (drop (length old - 1) cs)
      else c # replace old new cs)"

text \<open>\<^verbatim>\<open>old in s\<close>: the string \<^verbatim>\<open>old\<close> occurs somewhere in \<^verbatim>\<open>s\<close>.\<close>

fun occurs_in :: "string \<Rightarrow> string \<Rightarrow> bool" where
  "occurs_in old [] = (old = [])"
| "occurs_in old (c # cs) = (prefix old (c # cs) \<or> occurs_in old cs)"

text \<open>\<^verbatim>\<open>s.endswith(suf)\<close>.\<close>

definition endswith :: "string \<Rightarrow> string \<Rightarrow> bool" where
  "endswith s suf = suffix suf s"

text \<open>
  Line 34 of the script: \<^verbatim>\<open>model_path.replace('.pt', '.onnx')\<close>, the output path used
  when the caller gives none.
\<close>

definition derive_output_path :: "path \<Rightarrow> path" where
  "derive_output_path model_path = replace ''.pt'' ''.onnx'' model_path"

text \<open>Lines 33-34: an explicit output path is kept, an absent one is derived.\<close>

definition resolve_output_path :: "path \<Rightarrow> path option \<Rightarrow> path" where
  "resolve_output_path model_path output_path =
     (case output_path of None \<Rightarrow> derive_output_path model_path | Some p \<Rightarrow> p)"

text \<open>
  \<^verbatim>\<open>os.path.join(a, b)\<close> and \<^verbatim>\<open>os.path.dirname(p)\<close> of \<^verbatim>\<open>posixpath\<close>.
\<close>

definition path_join :: "path \<Rightarrow> path \<Rightarrow> path" where
  "path_join a b =
     (if prefix ''/'' b then b
      else if a = [] \<or> endswith a ''/'' then a @ b
      else a @ ''/'' @ b)"

definition rstrip_sep :: "path \<Rightarrow> path" where
  "rstrip_sep p = rev (dropWhile (\<lambda>c. c = CHR ''/'') (rev p))"

definition dirname :: "path \<Rightarrow> path" where
  "dirname p =
     (let head = rev (dropWhile (\<lambda>c. c \<noteq> CHR ''/'') (rev p))
      in if head \<noteq> [] \<and> \<not> list_all (\<lambda>c. c = CHR ''/'') head then rstrip_sep head else head)"

text \<open>\<^verbatim>\<open>str(n)\<close> of a Python integer, as the f-strings of the script print it.\<close>

definition digit_char :: "nat \<Rightarrow> char" where
  "digit_char d = ''0123456789'' ! d"

fun str_nat :: "nat \<Rightarrow> string" where
  "str_nat n = (if n < 10 then [digit_char n] else str_nat (n div 10) @ [digit_char (n mod 10)])"

declare str_nat.simps [simp del]

definition str_int :: "int \<Rightarrow> string" where
  "str_int i = (if i < 0 then CHR ''-'' # str_nat (nat (- i)) else str_nat (nat i))"

section \<open>Exceptions, the file system and the external libraries\<close>

text \<open>
  Both \<^verbatim>\<open>try\<close> blocks of the script catch \<^verbatim>\<open>Exception\<close>; the inner one tells
  \<^verbatim>\<open>ImportError\<close> from the rest. An exception is therefore modelled by its handler class
  and its message \<^verbatim>\<open>str(e)\<close>. Interrupts of the process (\<^verbatim>\<open>KeyboardInterrupt\<close>,
  \<^verbatim>\<open>SystemExit\<close>), which are no \<^verbatim>\<open>Exception\<close>, are outside the model.
\<close>

datatype py_exn = ImportError string | OtherException string

fun message :: "py_exn \<Rightarrow> string" where
  "message (ImportError m) = m"
| "message (OtherException m) = m"

type_synonym content = string

text \<open>
  A directory as \<^verbatim>\<open>os.walk\<close> lists it: the names of its files and its subdirectories
  with their own listings, in listing order.
\<close>

datatype dirtree = Dir "string list" "(string \<times> dirtree) list"

text \<open>The tensor built by \<^verbatim>\<open>torch.randn(1, input_size, dtype=torch.float32)\<close>.\<close>

record 'v tensor =
  shape :: "int list"
  dtype :: string
  data :: 'v

text \<open>The keyword arguments of \<^verbatim>\<open>torch.onnx.export\<close> (lines 63-71).\<close>

record export_settings =
  export_params :: bool
  opset_version :: int
  do_constant_folding :: bool
  input_names :: "string list"
  output_names :: "string list"
  dynamic_axes :: "(string \<times> (int \<times> string) list) list"

text \<open>
  The calls into the libraries, in the order they are made. The trace is kept in the
  state so that one can say which steps ran.
\<close>

datatype call =
    JitLoad path
  | Randn "int list" string
  | Forward "int list"
  | OnnxExport path "int list" string export_settings
  | ImportOnnx
  | OnnxLoad path
  | CheckModel

text \<open>
  The state the script acts on: the regular files and the directories by path, the lines
  printed so far, the trace of library calls, and the log of the calls that \<^verbatim>\<open>main\<close>
  makes to \<^verbatim>\<open>convert_pytorch_to_onnx\<close> (the three arguments and the value returned).
\<close>

record world =
  files :: "path \<rightharpoonup> content"
  dirs :: "path \<rightharpoonup> dirtree"
  out :: "string list"
  calls :: "call list"
  converts :: "(path \<times> int option \<times> path option \<times> bool) list"

text \<open>
  What \<^verbatim>\<open>torch.onnx.export\<close> does with the file named by its third argument: it writes
  the artifact and returns, or it raises, having left nothing or a partial file there.
\<close>

datatype export_outcome = Exported content | ExportRaised py_exn "content option"

text \<open>
  The libraries the script delegates to. Their behaviour is a parameter of the model:
  \<^item> \<open>jit_load\<close>: \<^verbatim>\<open>torch.jit.load(model_path)\<close> followed by \<^verbatim>\<open>model.eval()\<close>;
  \<^item> \<open>randn\<close>: the values drawn by \<^verbatim>\<open>torch.randn\<close> for a shape, or its exception;
  \<^item> \<open>forward\<close>: \<^verbatim>\<open>model(dummy_input)\<close> and the text of \<^verbatim>\<open>output.shape\<close>;
  \<^item> \<open>onnx_export\<close>: \<^verbatim>\<open>torch.onnx.export\<close>;
  \<^item> \<open>import_onnx\<close>: the exception of \<^verbatim>\<open>import onnx\<close>, if any;
  \<^item> \<open>onnx_load\<close>: \<^verbatim>\<open>onnx.load(output_path)\<close>;
  \<^item> \<open>check_model\<close>: the exception of \<^verbatim>\<open>onnx.checker.check_model\<close>, if any.
\<close>

record ('m, 'v, 'g) libs =
  jit_load :: "(path \<rightharpoonup> content) \<Rightarrow> path \<Rightarrow> py_exn + 'm"
  randn :: "int list \<Rightarrow> py_exn + 'v"
  forward :: "'m \<Rightarrow> 'v tensor \<Rightarrow> py_exn + string"
  onnx_export :: "(path \<rightharpoonup> content) \<Rightarrow> 'm \<Rightarrow> 'v tensor \<Rightarrow> path \<Rightarrow> export_settings \<Rightarrow> export_outcome"
  import_onnx :: "py_exn option"
  onnx_load :: "(path \<rightharpoonup> content) \<Rightarrow> path \<Rightarrow> py_exn + 'g"
  check_model :: "'g \<Rightarrow> py_exn option"

definition print :: "string \<Rightarrow> world \<Rightarrow> world" where
  "print line w = w\<lparr>out := out w @ [line]\<rparr>"

definition called :: "call \<Rightarrow> world \<Rightarrow> world" where
  "called c w = w\<lparr>calls := calls w @ [c]\<rparr>"

definition write_file :: "path \<Rightarrow> content \<Rightarrow> world \<Rightarrow> world" where
  "write_file p c w = w\<lparr>files := (files w)(p \<mapsto> c)\<rparr>"

text \<open>\<^verbatim>\<open>os.path.exists\<close>: true of files and of directories.\<close>

definition path_exists :: "world \<Rightarrow> path \<Rightarrow> bool" where
  "path_exists w p = (files w p \<noteq> None \<or> dirs w p \<noteq> None)"

section \<open>The single-file conversion\<close>

text \<open>The fixed keyword arguments of the export call (lines 63-71).\<close>

definition onnx_export_settings :: export_settings where
  "onnx_export_settings =
     \<lparr>export_params = True,
      opset_version = 11,
      do_constant_folding = True,
      input_names = [''observations''],
      output_names = [''actions''],
      dynamic_axes = [(''observations'', [(0, ''batch_size'')]), (''actions'', [(0, ''batch_size'')])]\<rparr>"

text \<open>Lines 43-47: the default size 48 and its two warnings when no size is given.\<close>

definition resolve_input_size :: "int option \<Rightarrow> world \<Rightarrow> int \<times> world" where
  "resolve_input_size input_size w =
     (case input_size of
        Some n \<Rightarrow> (n, w)
      | None \<Rightarrow>
          (48,
           print ''If this fails, try specifying --input_size with one of: [45, 48, 51, 57, 87]''
             (print ''Warning: Input size not specified, using default: 48'' w)))"

text \<open>\<^verbatim>\<open>str(dummy_input.shape)\<close> for the shape \<^verbatim>\<open>[1, n]\<close>.\<close>

definition shape_text :: "int list \<Rightarrow> string" where
  "shape_text sh =
     ''torch.Size(['' @ concat (map (\<lambda>(i, d). (if i = 0 then [] else '', '') @ str_int d)
                                  (zip [0 ..< length sh] sh)) @ ''])''"

text \<open>
  Lines 77-87, the inner \<^verbatim>\<open>try\<close>: its body, which stops at the first exception, and
  its two handlers. Whatever happens, control goes on to \<^verbatim>\<open>return True\<close>.
\<close>

definition verify_body :: "('m, 'v, 'g) libs \<Rightarrow> path \<Rightarrow> world \<Rightarrow> (py_exn \<times> world) + world" where
  "verify_body L output_path w =
     (let w1 = called ImportOnnx w in
      case import_onnx L of
        Some e \<Rightarrow> Inl (e, w1)
      | None \<Rightarrow>
          (let w2 = called (OnnxLoad output_path) w1 in
           case onnx_load L (files w2) output_path of
             Inl e \<Rightarrow> Inl (e, w2)
           | Inr onnx_model \<Rightarrow>
               (let w3 = called CheckModel w2 in
                case check_model L onnx_model of
                  Some e \<Rightarrow> Inl (e, w3)
                | None \<Rightarrow> Inr (print ''ONNX model verification successful'' w3))))"

fun verify_handler :: "py_exn \<Rightarrow> world \<Rightarrow> world" where
  "verify_handler (ImportError m) w =
     print ''You can install it with: pip install onnx''
       (print ''Warning: onnx package not available for verification'' w)"
| "verify_handler (OtherException m) w =
     print ''Model was still exported successfully''
       (print (''Warning: ONNX model verification failed: '' @ m) w)"

definition verify_onnx :: "('m, 'v, 'g) libs \<Rightarrow> path \<Rightarrow> world \<Rightarrow> world" where
  "verify_onnx L output_path w =
     (case verify_body L output_path w of
        Inl (e, w') \<Rightarrow> verify_handler e w'
      | Inr w' \<Rightarrow> w')"

text \<open>
  Lines 59-72: the export call. A file the exporter leaves behind when it raises stays
  where it is: the script removes nothing.
\<close>

definition export_step ::
  "('m, 'v, 'g) libs \<Rightarrow> 'm \<Rightarrow> 'v tensor \<Rightarrow> path \<Rightarrow> world \<Rightarrow> (py_exn \<times> world) + world" where
  "export_step L model dummy_input output_path w =
     (let w1 = called (OnnxExport output_path (shape dummy_input) (dtype dummy_input)
                         onnx_export_settings) w in
      case onnx_export L (files w1) model dummy_input output_path onnx_export_settings of
        ExportRaised e None \<Rightarrow> Inl (e, w1)
      | ExportRaised e (Some partial) \<Rightarrow> Inl (e, write_file output_path partial w1)
      | Exported artifact \<Rightarrow> Inr (write_file output_path artifact w1))"

text \<open>
  Lines 37-89, the body of the outer \<^verbatim>\<open>try\<close>: \<open>Inl\<close> is an exception on its way to
  the handler of line 91, with the state reached when it was raised; \<open>Inr\<close> is the
  \<^verbatim>\<open>return True\<close> of line 89.
\<close>

definition conversion_body ::
  "('m, 'v, 'g) libs \<Rightarrow> path \<Rightarrow> int option \<Rightarrow> path \<Rightarrow> world \<Rightarrow> (py_exn \<times> world) + (bool \<times> world)" where
  "conversion_body L model_path input_size output_path w =
     (let w1 = called (JitLoad model_path) (print (''Loading PyTorch model: '' @ model_path) w) in
      case jit_load L (files w1) model_path of
        Inl e \<Rightarrow> Inl (e, w1)
      | Inr model \<Rightarrow>
          (let (n, w2) = resolve_input_size input_size w1;
               w3 = called (Randn [1, n] ''float32'') w2 in
           case randn L [1, n] of
             Inl e \<Rightarrow> Inl (e, w3)
           | Inr values \<Rightarrow>
               (let dummy_input = \<lparr>shape = [1, n], dtype = ''float32'', data = values\<rparr>;
                    w4 = called (Forward [1, n]) w3 in
                case forward L model dummy_input of
                  Inl e \<Rightarrow> Inl (e, w4)
                | Inr output_shape \<Rightarrow>
                    (let w5 = print (''Model test successful - Input: '' @ shape_text [1, n]
                                       @ '', Output: '' @ output_shape) w4;
                         w6 = print (''Exporting to ONNX: '' @ output_path) w5 in
                     case export_step L model dummy_input output_path w6 of
                       Inl (e, w7) \<Rightarrow> Inl (e, w7)
                     | Inr w7 \<Rightarrow>
                         (let w8 = print (''Successfully converted '' @ model_path @ '' to ''
                                            @ output_path) w7
                          in Inr (True, verify_onnx L output_path w8))))))"

text \<open>
  \<^verbatim>\<open>convert_pytorch_to_onnx(model_path, input_size, output_path)\<close>, lines 19-93: the
  returned boolean and the state afterwards.
\<close>

definition convert_pytorch_to_onnx ::
  "('m, 'v, 'g) libs \<Rightarrow> path \<Rightarrow> int option \<Rightarrow> path option \<Rightarrow> world \<Rightarrow> bool \<times> world" where
  "convert_pytorch_to_onnx L model_path input_size output_path w =
     (if \<not> path_exists w model_path
      then (False, print (''Error: Model file '' @ model_path @ '' not found'') w)
      else
        (case conversion_body L model_path input_size
                (resolve_output_path model_path output_path) w of
           Inr (r, w') \<Rightarrow> (r, w')
         | Inl (e, w') \<Rightarrow> (False, print (''Error during conversion: '' @ message e) w')))"

section \<open>The command line: batch mode and single-file mode\<close>

text \<open>
  \<^verbatim>\<open>os.walk(root)\<close>, top-down: one triple \<^verbatim>\<open>(root, dirs, files)\<close> for the directory and
  then the triples of each subdirectory. Symbolic links to directories are not followed,
  so a \<^typ>\<open>dirtree\<close> holds real subdirectories only. A path that is no directory yields
  nothing. The listing is the one of the state the batch starts in: the conversions create
  no directory, and the files they write have names that do not end with \<^verbatim>\<open>.pt\<close>.
\<close>

fun walk :: "path \<Rightarrow> dirtree \<Rightarrow> (path \<times> string list \<times> string list) list" where
  "walk root (Dir fs subs) =
     (root, map fst subs, fs) # concat (map (\<lambda>(name, t). walk (path_join root name) t) subs)"

definition os_walk :: "world \<Rightarrow> path \<Rightarrow> (path \<times> string list \<times> string list) list" where
  "os_walk w root = (case dirs w root of None \<Rightarrow> [] | Some t \<Rightarrow> walk root t)"

text \<open>A call of \<^verbatim>\<open>convert_pytorch_to_onnx\<close> from \<^verbatim>\<open>main\<close>, entered in the log.\<close>

definition call_convert ::
  "('m, 'v, 'g) libs \<Rightarrow> path \<Rightarrow> int option \<Rightarrow> path option \<Rightarrow> world \<Rightarrow> bool \<times> world" where
  "call_convert L model_path input_size output_path w =
     (let (r, w') = convert_pytorch_to_onnx L model_path input_size output_path w
      in (r, w'\<lparr>converts := converts w' @ [(model_path, input_size, output_path, r)]\<rparr>))"

text \<open>The variables of the batch loop (lines 112-113) with the state they run in.\<close>

record batch_state =
  current :: world
  success_count :: int
  total_count :: int

text \<open>Lines 118-122: what the loop does with one file whose name ends with \<^verbatim>\<open>.pt\<close>.\<close>

definition convert_one :: "('m, 'v, 'g) libs \<Rightarrow> int option \<Rightarrow> path \<Rightarrow> batch_state \<Rightarrow> batch_state" where
  "convert_one L input_size model_path st =
     (let w1 = print (CHR 0x0A # ''--- Converting '' @ model_path @ '' ---'') (current st);
          st1 = st\<lparr>current := w1, total_count := total_count st + 1\<rparr>;
          (r, w2) = call_convert L model_path input_size None w1;
          st2 = st1\<lparr>current := w2\<rparr>
      in if r then st2\<lparr>success_count := success_count st2 + 1\<rparr> else st2)"

text \<open>Lines 116-122: the inner loop over the files of one directory.\<close>

fun files_loop ::
  "('m, 'v, 'g) libs \<Rightarrow> int option \<Rightarrow> path \<Rightarrow> string list \<Rightarrow> batch_state \<Rightarrow> batch_state" where
  "files_loop L input_size root [] st = st"
| "files_loop L input_size root (file # rest) st =
     files_loop L input_size root rest
       (if endswith file ''.pt'' then convert_one L input_size (path_join root file) st else st)"

text \<open>Lines 115-122: the outer loop over the triples of the walk.\<close>

fun walk_loop ::
  "('m, 'v, 'g) libs \<Rightarrow> int option \<Rightarrow> (path \<times> string list \<times> string list) list \<Rightarrow>
     batch_state \<Rightarrow> batch_state" where
  "walk_loop L input_size [] st = st"
| "walk_loop L input_size ((root, ds, fs) # rest) st =
     walk_loop L input_size rest (files_loop L input_size root fs st)"

text \<open>Lines 112-122: the counters start at zero and the walk is run.\<close>

definition batch_convert :: "('m, 'v, 'g) libs \<Rightarrow> int option \<Rightarrow> path \<Rightarrow> world \<Rightarrow> batch_state" where
  "batch_convert L input_size policy_dir w =
     walk_loop L input_size (os_walk w policy_dir)
       \<lparr>current = w, success_count = 0, total_count = 0\<rparr>"

text \<open>Line 124: the summary line.\<close>

definition summary_line :: "batch_state \<Rightarrow> string" where
  "summary_line st =
     CHR 0x0A # ''Batch conversion completed: '' @ str_int (success_count st) @ ''/''
       @ str_int (total_count st) @ '' models converted successfully''"

text \<open>The parsed command line \<^verbatim>\<open>args\<close> (lines 96-103).\<close>

record cli_args =
  arg_model_path :: path
  arg_input_size :: "int option"
  arg_output_path :: "path option"
  arg_batch_convert :: bool

text \<open>
  \<^verbatim>\<open>main()\<close>, lines 95-128, run as the script \<open>script_file\<close> (\<^verbatim>\<open>__file__\<close>): the exit
  status of the process and the state it leaves. Returning from \<^verbatim>\<open>main\<close> ends the script
  with status 0; \<^verbatim>\<open>sys.exit(n)\<close> ends it with status \<open>n\<close>.
\<close>

definition main :: "('m, 'v, 'g) libs \<Rightarrow> path \<Rightarrow> cli_args \<Rightarrow> world \<Rightarrow> int \<times> world" where
  "main L script_file args w =
     (if arg_batch_convert args then
        (let policy_dir = path_join (dirname script_file) ''policy'' in
         if \<not> path_exists w policy_dir
         then (0, print (''Error: Policy directory '' @ policy_dir @ '' not found'') w)
         else
           (let st = batch_convert L (arg_input_size args) policy_dir w
            in (0, print (summary_line st) (current st))))
      else
        (let (success, w') = call_convert L (arg_model_path args) (arg_input_size args)
                              (arg_output_path args) w
         in (if success then 0 else 1, w')))"

section \<open>The steps of a conversion, as the libraries decide them\<close>

text \<open>
  The four steps that can make a conversion fail, and the first of them that raises when
  the libraries are run in the order of lines 39-72 on the files \<open>fs\<close>: \<open>None\<close> when all
  four go through.
\<close>

datatype step = Load | InputSynthesis | ForwardPass | Export

definition chosen_size :: "int option \<Rightarrow> int" where
  "chosen_size input_size = (case input_size of None \<Rightarrow> 48 | Some n \<Rightarrow> n)"

definition first_error ::
  "('m, 'v, 'g) libs \<Rightarrow> path \<Rightarrow> int option \<Rightarrow> path \<Rightarrow> (path \<rightharpoonup> content) \<Rightarrow> (step \<times> py_exn) option" where
  "first_error L model_path input_size output_path fs =
     (let n = chosen_size input_size in
      case jit_load L fs model_path of
        Inl e \<Rightarrow> Some (Load, e)
      | Inr model \<Rightarrow>
          (case randn L [1, n] of
             Inl e \<Rightarrow> Some (InputSynthesis, e)
           | Inr values \<Rightarrow>
               (let dummy_input = \<lparr>shape = [1, n], dtype = ''float32'', data = values\<rparr> in
                case forward L model dummy_input of
                  Inl e \<Rightarrow> Some (ForwardPass, e)
                | Inr output_shape \<Rightarrow>
                    (case onnx_export L fs model dummy_input output_path onnx_export_settings of
                       ExportRaised e left \<Rightarrow> Some (Export, e)
                     | Exported artifact \<Rightarrow> None))))"

text \<open>
  What the exporter does in such a run, when the first three steps let it be called, and
  the content it leaves at the output path: the artifact, or the partial file of an export
  that raised.
\<close>

definition export_result ::
  "('m, 'v, 'g) libs \<Rightarrow> path \<Rightarrow> int option \<Rightarrow> path \<Rightarrow> (path \<rightharpoonup> content) \<Rightarrow> export_outcome option" where
  "export_result L model_path input_size output_path fs =
     (let n = chosen_size input_size in
      case jit_load L fs model_path of
        Inl e \<Rightarrow> None
      | Inr model \<Rightarrow>
          (case randn L [1, n] of
             Inl e \<Rightarrow> None
           | Inr values \<Rightarrow>
               (let dummy_input = \<lparr>shape = [1, n], dtype = ''float32'', data = values\<rparr> in
                case forward L model dummy_input of
                  Inl e \<Rightarrow> None
                | Inr output_shape \<Rightarrow>
                    Some (onnx_export L fs model dummy_input output_path onnx_export_settings))))"

definition written ::
  "('m, 'v, 'g) libs \<Rightarrow> path \<Rightarrow> int option \<Rightarrow> path \<Rightarrow> (path \<rightharpoonup> content) \<Rightarrow> content option" where
  "written L model_path input_size output_path fs =
     (case export_result L model_path input_size output_path fs of
        Some (Exported artifact) \<Rightarrow> Some artifact
      | Some (ExportRaised e left) \<Rightarrow> left
      | None \<Rightarrow> None)"

text \<open>The library calls of the four steps, in order, and how many of them a step needs.\<close>

definition step_calls :: "path \<Rightarrow> int option \<Rightarrow> path \<Rightarrow> call list" where
  "step_calls model_path input_size output_path =
     (let n = chosen_size input_size in
      [JitLoad model_path, Randn [1, n] ''float32'', Forward [1, n],
       OnnxExport output_path [1, n] ''float32'' onnx_export_settings])"

fun step_number :: "step \<Rightarrow> nat" where
  "step_number Load = 1"
| "step_number InputSynthesis = 2"
| "step_number ForwardPass = 3"
| "step_number Export = 4"

text \<open>The library calls of the verification, in order.\<close>

definition verify_calls :: "path \<Rightarrow> call list" where
  "verify_calls output_path = [ImportOnnx, OnnxLoad output_path, CheckModel]"

text \<open>The exception the verification of lines 78-80 ends with, if any.\<close>

definition verify_error :: "('m, 'v, 'g) libs \<Rightarrow> path \<Rightarrow> (path \<rightharpoonup> content) \<Rightarrow> py_exn option" where
  "verify_error L output_path fs =
     (case import_onnx L of
        Some e \<Rightarrow> Some e
      | None \<Rightarrow>
          (case onnx_load L fs output_path of
             Inl e \<Rightarrow> Some e
           | Inr onnx_model \<Rightarrow> check_model L onnx_model))"

text \<open>The lines printed at the end of the verification (lines 81-87), by its outcome.\<close>

fun verify_report :: "py_exn option \<Rightarrow> string list" where
  "verify_report None = [''ONNX model verification successful'']"
| "verify_report (Some (ImportError m)) =
     [''Warning: onnx package not available for verification'',
      ''You can install it with: pip install onnx'']"
| "verify_report (Some (OtherException m)) =
     [''Warning: ONNX model verification failed: '' @ m,
      ''Model was still exported successfully'']"

text \<open>The library calls made since the state \<open>w\<close>.\<close>

definition new_calls :: "world \<Rightarrow> world \<Rightarrow> call list" where
  "new_calls w w' = drop (length (calls w)) (calls w')"

section \<open>What the batch is measured against\<close>

text \<open>
  The file entries of a directory tree, each one once: the directory it is listed in and
  its name, the directory's own entries first and then those of its subdirectories.
\<close>

fun tree_entries :: "path \<Rightarrow> dirtree \<Rightarrow> (path \<times> string) list" where
  "tree_entries root (Dir fs subs) =
     map (Pair root) fs @ concat (map (\<lambda>(name, t). tree_entries (path_join root name) t) subs)"

text \<open>The entries of the triples of a walk, in the order the two loops meet them.\<close>

definition walk_entries :: "(path \<times> string list \<times> string list) list \<Rightarrow> (path \<times> string) list" where
  "walk_entries triples = concat (map (\<lambda>(root, ds, fs). map (Pair root) fs) triples)"

text \<open>The model files under a directory: the entries whose name ends with \<^verbatim>\<open>.pt\<close>.\<close>

definition discovered :: "world \<Rightarrow> path \<Rightarrow> path list" where
  "discovered w root =
     (case dirs w root of
        None \<Rightarrow> []
      | Some t \<Rightarrow> map (\<lambda>(r, f). path_join r f)
                    (filter (\<lambda>(r, f). endswith f ''.pt'') (tree_entries root t)))"

text \<open>The two loops as one loop over the entries, to speak of the state after each entry.\<close>

fun entries_loop ::
  "('m, 'v, 'g) libs \<Rightarrow> int option \<Rightarrow> (path \<times> string) list \<Rightarrow> batch_state \<Rightarrow> batch_state" where
  "entries_loop L input_size [] st = st"
| "entries_loop L input_size ((root, file) # rest) st =
     entries_loop L input_size rest
       (if endswith file ''.pt'' then convert_one L input_size (path_join root file) st else st)"

text \<open>What the conversion of one model file of the batch returns in the state \<open>st\<close>.\<close>

definition one_result :: "('m, 'v, 'g) libs \<Rightarrow> int option \<Rightarrow> path \<Rightarrow> batch_state \<Rightarrow> bool" where
  "one_result L i p st =
     fst (convert_pytorch_to_onnx L p i None
            (print (CHR 0x0A # ''--- Converting '' @ p @ '' ---'') (current st)))"

text \<open>The calls logged since the state \<open>w\<close>, and the value each returned.\<close>

definition new_converts :: "world \<Rightarrow> world \<Rightarrow> (path \<times> int option \<times> path option \<times> bool) list" where
  "new_converts w w' = drop (length (converts w)) (converts w')"

definition returned :: "path \<times> int option \<times> path option \<times> bool \<Rightarrow> bool" where
  "returned c = snd (snd (snd c))"

definition arguments :: "path \<times> int option \<times> path option \<times> bool \<Rightarrow> path \<times> int option \<times> path option" where
  "arguments c = (fst c, fst (snd c), fst (snd (snd c)))"

section \<open>Sample libraries and states\<close>

text \<open>
  Libraries and file systems to run the model on. A sample model is the observation
  size it expects; the sample exporter writes the artifact \<open>''ONNX''\<close>.
\<close>

definition demo_libs :: "(int, unit, content) libs" where
  "demo_libs =
     \<lparr>jit_load = (\<lambda>fs p. case fs p of
                    None \<Rightarrow> Inl (OtherException ''cannot open file'')
                  | Some c \<Rightarrow> if c = ''TS48'' then Inr 48
                              else if c = ''TS45'' then Inr 45
                              else Inl (OtherException ''not a TorchScript archive'')),
      randn = (\<lambda>sh. if list_all (\<lambda>d. 0 \<le> d) sh then Inr ()
                     else Inl (OtherException ''negative dimension'')),
      forward = (\<lambda>m t. if shape t = [1, m] then Inr ''torch.Size([1, 12])''
                        else Inl (OtherException ''size mismatch'')),
      onnx_export = (\<lambda>fs m t p s. Exported ''ONNX''),
      import_onnx = None,
      onnx_load = (\<lambda>fs p. case fs p of
                     None \<Rightarrow> Inl (OtherException ''no such file'')
                   | Some c \<Rightarrow> Inr c),
      check_model = (\<lambda>g. if g = ''ONNX'' then None else Some (OtherException ''invalid model''))\<rparr>"

text \<open>The same with an exporter that raises after it has written part of the file.\<close>

definition partial_export_libs :: "(int, unit, content) libs" where
  "partial_export_libs =
     demo_libs\<lparr>onnx_export := (\<lambda>fs m t p s. ExportRaised (OtherException ''disk full'') (Some ''ON''))\<rparr>"

text \<open>The same with a verifier that rejects every model.\<close>

definition failing_check_libs :: "(int, unit, content) libs" where
  "failing_check_libs =
     demo_libs\<lparr>check_model := (\<lambda>g. Some (OtherException ''bad graph''))\<rparr>"

text \<open>
  A policy directory beside the script \<open>''/s/c.py''\<close> with three model files, one of which
  expects 45 observations, and the same file system without the directory.
\<close>

definition demo_tree :: dirtree where
  "demo_tree =
     Dir [''README'']
       [(''go2'', Dir [''policy.pt'', ''cfg.yaml''] []),
        (''g1'', Dir [''policy.pt''] []),
        (''a1'', Dir [''policy.pt''] [])]"

definition demo_world :: world where
  "demo_world =
     \<lparr>files = [''/s/policy/go2/policy.pt'' \<mapsto> ''TS48'',
               ''/s/policy/g1/policy.pt'' \<mapsto> ''TS45'',
               ''/s/policy/a1/policy.pt'' \<mapsto> ''TS48'',
               ''m.jit'' \<mapsto> ''TS48''],
      dirs = [''/s/policy'' \<mapsto> demo_tree],
      out = [],
      calls = [],
      converts = []\<rparr>"

definition bare_world :: world where
  "bare_world = \<lparr>files = [''m.jit'' \<mapsto> ''TS48''], dirs = Map.empty, out = [], calls = [], converts = []\<rparr>"

section \<open>Properties of the single-file conversion\<close>

lemma replace_no_occurrence: "\<not> occurs_in old s \<Longrightarrow> replace old new s = s"
  by (induction s) auto

text \<open>
  Two facts on the derived path. When \<^verbatim>\<open>.pt\<close> occurs in the source path as its
  extension only, the derivation replaces just the extension. And \<^verbatim>\<open>.pt\<close> never occurs
  in a derived path, so the file a conversion of the batch writes is never itself a
  model file for the walk to pick up.
\<close>

lemma prefix_pt_append:
  "prefix ''.pt'' (s @ ''.pt'') \<longleftrightarrow> prefix ''.pt'' s \<or> s = []"
proof (cases s)
  case Nil
  then show ?thesis by simp
next
  case (Cons a s1)
  show ?thesis
  proof (cases s1)
    case Nil
    with Cons show ?thesis by auto
  next
    case (Cons b s2)
    note c2 = this
    show ?thesis
    proof (cases s2)
      case Nil
      with c2 \<open>s = a # s1\<close> show ?thesis by auto
    next
      case (Cons c s3)
      with c2 \<open>s = a # s1\<close> show ?thesis by auto
    qed
  qed
qed

lemma replace_skip:
  "old \<noteq> [] \<Longrightarrow> \<not> prefix old (c # cs) \<Longrightarrow> replace old new (c # cs) = c # replace old new cs"
  by simp

lemma derive_output_path_extension:
  "\<not> occurs_in ''.pt'' stem \<Longrightarrow> derive_output_path (stem @ ''.pt'') = stem @ ''.onnx''"
proof (induction stem)
  case Nil
  show ?case by (simp add: derive_output_path_def)
next
  case (Cons c cs)
  then have np: "\<not> prefix ''.pt'' (c # cs)" and nc: "\<not> occurs_in ''.pt'' cs"
    by auto
  have np': "\<not> prefix ''.pt'' (c # (cs @ ''.pt''))"
    using np prefix_pt_append[of "c # cs"] by simp
  have "replace ''.pt'' ''.onnx'' (c # (cs @ ''.pt'')) = c # replace ''.pt'' ''.onnx'' (cs @ ''.pt'')"
    by (rule replace_skip) (simp, rule np')
  with Cons.IH[OF nc] show ?case
    by (simp only: derive_output_path_def append_Cons)

  
qed


lemma replaced_starts_t:
  "prefix ''t'' (replace ''.pt'' ''.onnx'' s) \<Longrightarrow> prefix ''t'' s"
  by (cases s) (auto split: if_splits)

lemma replaced_starts_pt:
  assumes a: "prefix ''pt'' (replace ''.pt'' ''.onnx'' s)"
  shows "prefix ''pt'' s"
proof (cases s)
  case Nil
  with a show ?thesis by simp
next
  case (Cons d ds)
  show ?thesis
  proof (cases "prefix ''.pt'' (d # ds)")
    case True
    with a Cons show ?thesis by simp
  next
    case False
    then have "replace ''.pt'' ''.onnx'' (d # ds) = d # replace ''.pt'' ''.onnx'' ds"
      by (intro replace_skip) simp_all
    with a Cons have "prefix ''pt'' (d # replace ''.pt'' ''.onnx'' ds)"
      by (simp only:)
    then have "CHR ''p'' = d \<and> prefix ''t'' (replace ''.pt'' ''.onnx'' ds)"
      by (rule iffD1[OF Cons_prefix_Cons])
    then have d: "d = CHR ''p''" and t: "prefix ''t'' (replace ''.pt'' ''.onnx'' ds)"
      by blast+
    from replaced_starts_t[OF t] show ?thesis
      unfolding Cons d by simp
  qed
qed

lemma occurs_in_onnx:
  "occurs_in ''.pt'' (''.onnx'' @ s) = occurs_in ''.pt'' s"
  by simp

lemma replaced_has_no_pt:
  "\<not> occurs_in ''.pt'' (replace ''.pt'' ''.onnx'' s)"
proof (induction "''.pt''" "''.onnx''" s rule: replace.induct)
  case 1
  show ?case by simp
next
  case (2 c cs)
  show ?case
  proof (cases "prefix ''.pt'' (c # cs)")
    case True
    then have "replace ''.pt'' ''.onnx'' (c # cs)
        = ''.onnx'' @ replace ''.pt'' ''.onnx'' (drop (length ''.pt'' - 1) cs)"
      by simp
    moreover have "\<not> occurs_in ''.pt'' (replace ''.pt'' ''.onnx'' (drop (length ''.pt'' - 1) cs))"
      using 2(2) True by simp
    ultimately show ?thesis
      by (metis occurs_in_onnx)
  next
    case False
    then have eq: "replace ''.pt'' ''.onnx'' (c # cs) = c # replace ''.pt'' ''.onnx'' cs"
      by (intro replace_skip) simp_all
    have ih: "\<not> occurs_in ''.pt'' (replace ''.pt'' ''.onnx'' cs)"
      using 2(3) False by simp
    have "\<not> prefix ''.pt'' (c # replace ''.pt'' ''.onnx'' cs)"
    proof
      assume "prefix ''.pt'' (c # replace ''.pt'' ''.onnx'' cs)"
      then have "CHR ''.'' = c \<and> prefix ''pt'' (replace ''.pt'' ''.onnx'' cs)"
        by (rule iffD1[OF Cons_prefix_Cons])
      then have c: "c = CHR ''.''" and p: "prefix ''pt'' (replace ''.pt'' ''.onnx'' cs)"
        by blast+
      from replaced_starts_pt[OF p] have "prefix ''.pt'' (c # cs)"
        unfolding c by simp
      with False show False by blast
    qed
    with ih eq show ?thesis by simp
  qed
qed

lemma suffix_occurs_in: "suffix x s \<Longrightarrow> occurs_in x s"
proof (induction s)
  case Nil
  then show ?case by simp
next
  case (Cons c cs)
  then show ?case
    by (auto simp: suffix_Cons)
qed

lemma derived_path_is_no_model_file:
  "\<not> endswith (derive_output_path p) ''.pt''"
  using replaced_has_no_pt[of p] suffix_occurs_in[of "''.pt''" "derive_output_path p"]
  by (auto simp: endswith_def derive_output_path_def)

lemma print_fields [simp]:
  "files (print l w) = files w" "dirs (print l w) = dirs w" "calls (print l w) = calls w"
  "converts (print l w) = converts w" "out (print l w) = out w @ [l]"
  by (simp_all add: print_def)

lemma called_fields [simp]:
  "files (called c w) = files w" "dirs (called c w) = dirs w" "calls (called c w) = calls w @ [c]"
  "converts (called c w) = converts w" "out (called c w) = out w"
  by (simp_all add: called_def)

lemma write_file_fields [simp]:
  "files (write_file p c w) = (files w)(p \<mapsto> c)" "dirs (write_file p c w) = dirs w"
  "calls (write_file p c w) = calls w" "converts (write_file p c w) = converts w"
  "out (write_file p c w) = out w"
  by (simp_all add: write_file_def)

lemma verify_handler_fields [simp]:
  "files (verify_handler e w) = files w" "dirs (verify_handler e w) = dirs w"
  "calls (verify_handler e w) = calls w" "converts (verify_handler e w) = converts w"
  by (cases e; simp)+

lemma verify_onnx_fields [simp]:
  "files (verify_onnx L p w) = files w" "dirs (verify_onnx L p w) = dirs w"
  "converts (verify_onnx L p w) = converts w"
  by (simp_all add: verify_onnx_def verify_body_def Let_def split: option.splits sum.splits)

lemma verify_onnx_calls:
  "\<exists>k. 0 < k \<and> k \<le> 3 \<and> calls (verify_onnx L p w) = calls w @ take k (verify_calls p)"
proof (cases "import_onnx L")
  case (Some e)
  then have "calls (verify_onnx L p w) = calls w @ take 1 (verify_calls p)"
    by (simp add: verify_onnx_def verify_body_def verify_calls_def)
  then show ?thesis by (intro exI[of _ 1]) simp
next
  case None
  show ?thesis
  proof (cases "onnx_load L (files w) p")
    case (Inl e)
    with None have "calls (verify_onnx L p w) = calls w @ take 2 (verify_calls p)"
      by (simp add: verify_onnx_def verify_body_def verify_calls_def)
    then show ?thesis by (intro exI[of _ 2]) simp
  next
    case (Inr g)
    with None have "calls (verify_onnx L p w) = calls w @ take 3 (verify_calls p)"
      by (cases "check_model L g") (simp_all add: verify_onnx_def verify_body_def verify_calls_def)
    then show ?thesis by (intro exI[of _ 3]) simp
  qed
qed

lemma verify_handler_out [simp]:
  "out (verify_handler e w) = out w @ verify_report (Some e)"
  by (cases e) simp_all

lemma verify_onnx_out:
  "out (verify_onnx L p w) = out w @ verify_report (verify_error L p (files w))"
  by (simp add: verify_onnx_def verify_body_def verify_error_def Let_def
      split: option.splits sum.splits py_exn.splits)

lemma resolve_input_size_fields [simp]:
  "fst (resolve_input_size i w) = chosen_size i"
  "files (snd (resolve_input_size i w)) = files w"
  "dirs (snd (resolve_input_size i w)) = dirs w"
  "calls (snd (resolve_input_size i w)) = calls w"
  "converts (snd (resolve_input_size i w)) = converts w"
  by (simp_all add: resolve_input_size_def chosen_size_def split: option.splits)

lemma body_failure:
  assumes "first_error L p i outp (files w) = Some (s, e)"
  shows "\<exists>w'. conversion_body L p i outp w = Inl (e, w')
           \<and> calls w' = calls w @ take (step_number s) (step_calls p i outp)
           \<and> dirs w' = dirs w \<and> converts w' = converts w
           \<and> files w' = (case written L p i outp (files w) of
                            None \<Rightarrow> files w | Some c \<Rightarrow> (files w)(outp \<mapsto> c))"
  using assms
  by (auto simp: first_error_def conversion_body_def export_step_def step_calls_def Let_def
      written_def export_result_def
      split_beta split: sum.splits export_outcome.splits option.splits)

lemma first_error_written:
  "first_error L p i outp fs = Some (s, e) \<Longrightarrow> s \<noteq> Export \<Longrightarrow> written L p i outp fs = None"
  by (auto simp: first_error_def written_def export_result_def Let_def
      split: sum.splits export_outcome.splits option.splits)

lemma first_error_None:
  "first_error L p i outp fs = None \<longleftrightarrow> (\<exists>a. export_result L p i outp fs = Some (Exported a))"
  by (auto simp: first_error_def export_result_def Let_def
      split: sum.splits export_outcome.splits option.splits)

lemma body_success:
  assumes "export_result L p i outp (files w) = Some (Exported a)"
  shows "\<exists>w' k. conversion_body L p i outp w = Inr (True, w')
           \<and> 0 < k \<and> k \<le> 3
           \<and> calls w' = calls w @ step_calls p i outp @ take k (verify_calls outp)
           \<and> dirs w' = dirs w \<and> converts w' = converts w
           \<and> files w' = (files w)(outp \<mapsto> a)
           \<and> (\<exists>pre. out w' = pre @ verify_report (verify_error L outp (files w')))"
proof -
  from assms obtain m v sh where
    m: "jit_load L (files w) p = Inr m" and
    v: "randn L [1, chosen_size i] = Inr v" and
    f: "forward L m \<lparr>shape = [1, chosen_size i], dtype = ''float32'', data = v\<rparr> = Inr sh" and
    x: "onnx_export L (files w) m \<lparr>shape = [1, chosen_size i], dtype = ''float32'', data = v\<rparr>
          outp onnx_export_settings = Exported a"
    by (auto simp: export_result_def Let_def split: sum.splits)
  define w8 where "w8 =
    print (''Successfully converted '' @ p @ '' to '' @ outp)
     (write_file outp a
       (called (OnnxExport outp [1, chosen_size i] ''float32'' onnx_export_settings)
         (print (''Exporting to ONNX: '' @ outp)
           (print (''Model test successful - Input: '' @ shape_text [1, chosen_size i]
                     @ '', Output: '' @ sh)
             (called (Forward [1, chosen_size i])
               (called (Randn [1, chosen_size i] ''float32'')
                 (snd (resolve_input_size i
                   (called (JitLoad p) (print (''Loading PyTorch model: '' @ p) w))))))))))"
  have body: "conversion_body L p i outp w = Inr (True, verify_onnx L outp w8)"
    using m v f x
    by (simp add: conversion_body_def export_step_def Let_def split_beta w8_def)
  obtain k where k: "0 < k" "k \<le> 3"
    "calls (verify_onnx L outp w8) = calls w8 @ take k (verify_calls outp)"
    using verify_onnx_calls by blast
  have "calls w8 = calls w @ step_calls p i outp"
    by (simp add: w8_def step_calls_def Let_def)
  moreover have "\<exists>pre. out (verify_onnx L outp w8)
      = pre @ verify_report (verify_error L outp (files (verify_onnx L outp w8)))"
    by (simp add: verify_onnx_out)
  ultimately show ?thesis
    using k body
    by (intro exI[of _ "verify_onnx L outp w8"] exI[of _ k]) (simp add: w8_def)
qed


lemma convert_missing:
  "\<not> path_exists w p \<Longrightarrow>
     convert_pytorch_to_onnx L p i op w
       = (False, print (''Error: Model file '' @ p @ '' not found'') w)"
  by (simp add: convert_pytorch_to_onnx_def)

lemma convert_failure:
  assumes "path_exists w p"
    and "first_error L p i (resolve_output_path p op) (files w) = Some (s, e)"
  shows "\<exists>w'. convert_pytorch_to_onnx L p i op w = (False, w')
           \<and> calls w' = calls w @ take (step_number s) (step_calls p i (resolve_output_path p op))
           \<and> last (out w') = ''Error during conversion: '' @ message e
           \<and> dirs w' = dirs w \<and> converts w' = converts w
           \<and> files w' = (case written L p i (resolve_output_path p op) (files w) of
                            None \<Rightarrow> files w
                          | Some c \<Rightarrow> (files w)(resolve_output_path p op \<mapsto> c))"
proof -
  from body_failure[OF assms(2)] obtain w1 where
    "conversion_body L p i (resolve_output_path p op) w = Inl (e, w1)"
    "calls w1 = calls w @ take (step_number s) (step_calls p i (resolve_output_path p op))"
    "dirs w1 = dirs w" "converts w1 = converts w"
    "files w1 = (case written L p i (resolve_output_path p op) (files w) of
                   None \<Rightarrow> files w
                 | Some c \<Rightarrow> (files w)(resolve_output_path p op \<mapsto> c))"
    by blast
  with assms(1) show ?thesis
    by (simp add: convert_pytorch_to_onnx_def)
qed

lemma convert_success:
  assumes "path_exists w p"
    and "export_result L p i (resolve_output_path p op) (files w) = Some (Exported a)"
  shows "\<exists>w' k. convert_pytorch_to_onnx L p i op w = (True, w')
           \<and> 0 < k \<and> k \<le> 3
           \<and> calls w' = calls w @ step_calls p i (resolve_output_path p op)
                          @ take k (verify_calls (resolve_output_path p op))
           \<and> dirs w' = dirs w \<and> converts w' = converts w
           \<and> files w' = (files w)(resolve_output_path p op \<mapsto> a)
           \<and> (\<exists>pre. out w' = pre @ verify_report
                        (verify_error L (resolve_output_path p op) (files w')))"
proof -
  from body_success[OF assms(2)] obtain w1 k where
    "conversion_body L p i (resolve_output_path p op) w = Inr (True, w1)"
    "0 < k" "k \<le> 3"
    "calls w1 = calls w @ step_calls p i (resolve_output_path p op)
                  @ take k (verify_calls (resolve_output_path p op))"
    "dirs w1 = dirs w" "converts w1 = converts w"
    "files w1 = (files w)(resolve_output_path p op \<mapsto> a)"
    "\<exists>pre. out w1 = pre @ verify_report (verify_error L (resolve_output_path p op) (files w1))"
    by blast
  with assms(1) show ?thesis
    by (intro exI[of _ w1] exI[of _ k]) (simp add: convert_pytorch_to_onnx_def)
qed

lemma convert_converts [simp]:
  "converts (snd (convert_pytorch_to_onnx L p i op w)) = converts w"
proof (cases "path_exists w p")
  case False
  then show ?thesis by (simp add: convert_missing)
next
  case True
  show ?thesis
  proof (cases "first_error L p i (resolve_output_path p op) (files w)")
    case None
    then obtain a where "export_result L p i (resolve_output_path p op) (files w) = Some (Exported a)"
      by (auto simp: first_error_None)
    from convert_success[OF True this] show ?thesis by auto
  next
    case (Some se)
    then obtain s e where "first_error L p i (resolve_output_path p op) (files w) = Some (s, e)"
      by (cases se) auto
    from convert_failure[OF True this] show ?thesis by auto
  qed
qed

lemma convert_dirs [simp]:
  "dirs (snd (convert_pytorch_to_onnx L p i op w)) = dirs w"
proof (cases "path_exists w p")
  case False
  then show ?thesis by (simp add: convert_missing)
next
  case True
  show ?thesis
  proof (cases "first_error L p i (resolve_output_path p op) (files w)")
    case None
    then obtain a where "export_result L p i (resolve_output_path p op) (files w) = Some (Exported a)"
      by (auto simp: first_error_None)
    from convert_success[OF True this] show ?thesis by auto
  next
    case (Some se)
    then obtain s e where "first_error L p i (resolve_output_path p op) (files w) = Some (s, e)"
      by (cases se) auto
    from convert_failure[OF True this] show ?thesis by auto
  qed
qed

lemma convert_True_iff:
  "fst (convert_pytorch_to_onnx L p i op w)
     \<longleftrightarrow> path_exists w p \<and> first_error L p i (resolve_output_path p op) (files w) = None"
proof (cases "path_exists w p")
  case False
  then show ?thesis by (simp add: convert_missing)
next
  case True
  show ?thesis
  proof (cases "first_error L p i (resolve_output_path p op) (files w)")
    case None
    then obtain a where "export_result L p i (resolve_output_path p op) (files w) = Some (Exported a)"
      by (auto simp: first_error_None)
    from convert_success[OF True this] None True show ?thesis by auto
  next
    case (Some se)
    then obtain s e where "first_error L p i (resolve_output_path p op) (files w) = Some (s, e)"
      by (cases se) auto
    from convert_failure[OF True this] this show ?thesis by auto
  qed
qed

lemma first_error_verifier_update [simp]:
  "first_error (L\<lparr>import_onnx := imp, onnx_load := ld, check_model := chk\<rparr>) p i outp fs
     = first_error L p i outp fs"
  by (simp add: first_error_def Let_def split: sum.splits export_outcome.splits)

lemma demo_first_error:
  "first_error demo_libs ''m.jit'' None ''m.onnx'' (files bare_world) = None"
  by (simp add: first_error_def demo_libs_def bare_world_def chosen_size_def)

lemma new_calls_append [simp]: "calls w' = calls w @ xs \<Longrightarrow> new_calls w w' = xs"
  by (simp add: new_calls_def)

lemma convert_new_calls:
  "set (new_calls w (snd (convert_pytorch_to_onnx L p i op w)))
     \<subseteq> set (step_calls p i (resolve_output_path p op) @ verify_calls (resolve_output_path p op))"
proof (cases "path_exists w p")
  case False
  then show ?thesis by (simp add: convert_missing new_calls_def)
next
  case True
  show ?thesis
  proof (cases "first_error L p i (resolve_output_path p op) (files w)")
    case None
    then obtain a where "export_result L p i (resolve_output_path p op) (files w) = Some (Exported a)"
      by (auto simp: first_error_None)
    from convert_success[OF True this] obtain w' k where
      "convert_pytorch_to_onnx L p i op w = (True, w')"
      "calls w' = calls w @ step_calls p i (resolve_output_path p op)
                    @ take k (verify_calls (resolve_output_path p op))"
      by blast
    then have "new_calls w (snd (convert_pytorch_to_onnx L p i op w))
        = step_calls p i (resolve_output_path p op) @ take k (verify_calls (resolve_output_path p op))"
      by simp
    then show ?thesis
      using set_take_subset[of k "verify_calls (resolve_output_path p op)"] by auto
  next
    case (Some se)
    then obtain s e where "first_error L p i (resolve_output_path p op) (files w) = Some (s, e)"
      by (cases se) auto
    from convert_failure[OF True this] obtain w' where
      "convert_pytorch_to_onnx L p i op w = (False, w')"
      "calls w' = calls w @ take (step_number s) (step_calls p i (resolve_output_path p op))"
      by blast
    then have "new_calls w (snd (convert_pytorch_to_onnx L p i op w))
        = take (step_number s) (step_calls p i (resolve_output_path p op))"
      by simp
    then show ?thesis
      using set_take_subset[of "step_number s" "step_calls p i (resolve_output_path p op)"] by auto
  qed
qed

lemma export_call_fixed:
  assumes "OnnxExport outp sh dt st \<in> set (new_calls w (snd (convert_pytorch_to_onnx L p i op w)))"
  shows "outp = resolve_output_path p op \<and> sh = [1, chosen_size i] \<and> dt = ''float32''
         \<and> st = onnx_export_settings"
proof -
  from assms convert_new_calls[of w L p i op]
  have "OnnxExport outp sh dt st
      \<in> set (step_calls p i (resolve_output_path p op) @ verify_calls (resolve_output_path p op))"
    by blast
  then show ?thesis
    by (simp add: step_calls_def verify_calls_def Let_def)
qed

lemma export_call_made:
  assumes "path_exists w p"
    and "export_result L p i (resolve_output_path p op) (files w) = Some (Exported a)"
  shows "OnnxExport (resolve_output_path p op) [1, chosen_size i] ''float32'' onnx_export_settings
           \<in> set (new_calls w (snd (convert_pytorch_to_onnx L p i op w)))"
proof -
  from convert_success[OF assms] obtain w' k where
    "convert_pytorch_to_onnx L p i op w = (True, w')"
    "calls w' = calls w @ step_calls p i (resolve_output_path p op)
                  @ take k (verify_calls (resolve_output_path p op))"
    by blast
  then have "new_calls w (snd (convert_pytorch_to_onnx L p i op w))
      = step_calls p i (resolve_output_path p op) @ take k (verify_calls (resolve_output_path p op))"
    by simp
  then show ?thesis by (simp add: step_calls_def Let_def)
qed

lemma demo_first_run:
  "files (snd (convert_pytorch_to_onnx demo_libs ''m.jit'' (Some 48) (Some ''m.onnx'') bare_world))
     = (files bare_world)(''m.onnx'' \<mapsto> ''ONNX'')"
  by (simp add: convert_pytorch_to_onnx_def conversion_body_def export_step_def
      resolve_input_size_def resolve_output_path_def path_exists_def bare_world_def
      demo_libs_def Let_def)

section \<open>The claims about the single-file conversion\<close>

text \<open>
  Claim C1. With no output path given, the output path should be the source path with its
  extension \<^verbatim>\<open>.pt\<close> replaced by \<^verbatim>\<open>.onnx\<close> and nothing else changed. The script
  replaces every occurrence of \<^verbatim>\<open>.pt\<close> in the path: for \<open>''policy/go2/policy.pt''\<close> the
  result is \<open>''policy/go2/policy.onnx''\<close>, but for \<open>''runs.pt/go2/policy.pt''\<close> the directory
  name changes as well.
\<close>

theorem derived_path_changes_directory_names:
  "resolve_output_path ''policy/go2/policy.pt'' None = ''policy/go2/policy.onnx''
   \<and> resolve_output_path ''runs.pt/go2/policy.pt'' None = ''runs.onnx/go2/policy.onnx''
   \<and> resolve_output_path ''runs.pt/go2/policy.pt'' None \<noteq> ''runs.pt/go2/policy.onnx''"
  by (simp add: resolve_output_path_def derive_output_path_def)

text \<open>
  Claim C5. When the source path does not exist, the conversion returns \<open>False\<close>, prints
  the not-found message, calls no library (the model is not loaded) and leaves the files
  and directories as they were.
\<close>

theorem missing_source_fails_without_load:
  assumes "\<not> path_exists w p"
  shows "fst (convert_pytorch_to_onnx L p i op w) = False
         \<and> out (snd (convert_pytorch_to_onnx L p i op w))
             = out w @ [''Error: Model file '' @ p @ '' not found'']
         \<and> new_calls w (snd (convert_pytorch_to_onnx L p i op w)) = []
         \<and> files (snd (convert_pytorch_to_onnx L p i op w)) = files w
         \<and> dirs (snd (convert_pytorch_to_onnx L p i op w)) = dirs w"
  using assms by (simp add: convert_missing new_calls_def)

theorem missing_source_fails_without_load_witness:
  "\<not> path_exists bare_world ''nope.pt''
   \<and> fst (convert_pytorch_to_onnx demo_libs ''nope.pt'' None None bare_world) = False
   \<and> out (snd (convert_pytorch_to_onnx demo_libs ''nope.pt'' None None bare_world))
       = [''Error: Model file nope.pt not found'']
   \<and> new_calls bare_world (snd (convert_pytorch_to_onnx demo_libs ''nope.pt'' None None bare_world)) = []"
proof -
  have h: "\<not> path_exists bare_world ''nope.pt''"
    by (simp add: path_exists_def bare_world_def)
  have o: "out bare_world = []" by (simp add: bare_world_def)
  show ?thesis
    using h o missing_source_fails_without_load[OF h, of demo_libs None None] by simp
qed

text \<open>
  Claim C3. When the source exists and the four steps load, input synthesis, forward pass
  and export go through, the conversion returns \<open>True\<close> whatever the verification does:
  the three verifier functions of the libraries are arbitrary here, so the verifier may be
  missing, fail to load the file or reject the model.
\<close>

theorem verification_never_flips_success:
  assumes "path_exists w p"
    and "first_error L p i (resolve_output_path p op) (files w) = None"
  shows "fst (convert_pytorch_to_onnx
                (L\<lparr>import_onnx := imp, onnx_load := ld, check_model := chk\<rparr>) p i op w) = True"
  using assms by (simp add: convert_True_iff)

theorem verification_never_flips_success_witness:
  "path_exists bare_world ''m.jit''
   \<and> first_error demo_libs ''m.jit'' None (resolve_output_path ''m.jit'' (Some ''m.onnx''))
        (files bare_world) = None
   \<and> fst (convert_pytorch_to_onnx
            (demo_libs\<lparr>import_onnx := Some (ImportError ''No module named onnx''),
                       onnx_load := (\<lambda>fs p. Inl (OtherException ''unreadable'')),
                       check_model := (\<lambda>g. Some (OtherException ''bad graph''))\<rparr>)
            ''m.jit'' None (Some ''m.onnx'') bare_world) = True"
proof -
  have h1: "path_exists bare_world ''m.jit''"
    by (simp add: path_exists_def bare_world_def)
  have h2: "first_error demo_libs ''m.jit'' None (resolve_output_path ''m.jit'' (Some ''m.onnx''))
        (files bare_world) = None"
    by (simp add: resolve_output_path_def demo_first_error)
  show ?thesis
    using h1 h2 verification_never_flips_success[OF h1 h2] by simp
qed

text \<open>
  Claim C2, as stated: one file is written when the conversion succeeds and nothing is
  written when it fails. It fails on an exporter that raises after it has written part of
  the file: the conversion returns \<open>False\<close> and the partial file is there, since the
  script removes nothing.
\<close>

theorem partial_export_counterexample:
  "fst (convert_pytorch_to_onnx partial_export_libs ''m.jit'' None (Some ''m.onnx'') bare_world) = False
   \<and> files bare_world ''m.onnx'' = None
   \<and> files (snd (convert_pytorch_to_onnx partial_export_libs ''m.jit'' None (Some ''m.onnx'') bare_world))
        ''m.onnx'' = Some ''ON''"
  by (simp add: convert_pytorch_to_onnx_def conversion_body_def export_step_def
      resolve_input_size_def resolve_output_path_def path_exists_def bare_world_def
      partial_export_libs_def demo_libs_def Let_def)

text \<open>
  Claim C2, amended. The conversion never touches the directories. When it returns
  \<open>True\<close>, the files differ from those before in exactly one place: the resolved output
  path holds the artifact the exporter wrote. When it returns \<open>False\<close>, the files are
  unchanged, unless the source exists and the exporter raised having left a partial file
  at the resolved output path, which then stays there.
\<close>

theorem writes_of_a_conversion:
  assumes "convert_pytorch_to_onnx L p i op w = (r, w')"
  shows "dirs w' = dirs w
         \<and> (r \<longrightarrow> (\<exists>a. export_result L p i (resolve_output_path p op) (files w) = Some (Exported a)
                      \<and> files w' = (files w)(resolve_output_path p op \<mapsto> a)))
         \<and> (\<not> r \<longrightarrow> files w' = files w
                      \<or> (\<exists>e c. path_exists w p
                            \<and> export_result L p i (resolve_output_path p op) (files w)
                                = Some (ExportRaised e (Some c))
                            \<and> files w' = (files w)(resolve_output_path p op \<mapsto> c)))"
proof (cases "path_exists w p")
  case False
  with assms show ?thesis by (auto simp: convert_missing)
next
  case True
  show ?thesis
  proof (cases "first_error L p i (resolve_output_path p op) (files w)")
    case None
    then obtain a where a: "export_result L p i (resolve_output_path p op) (files w) = Some (Exported a)"
      by (auto simp: first_error_None)
    from convert_success[OF True a] assms a show ?thesis by auto
  next
    case (Some se)
    then obtain s e where se: "first_error L p i (resolve_output_path p op) (files w) = Some (s, e)"
      by (cases se) auto
    from convert_failure[OF True se] assms have r: "\<not> r" and d: "dirs w' = dirs w"
      and f: "files w' = (case written L p i (resolve_output_path p op) (files w) of
                            None \<Rightarrow> files w
                          | Some c \<Rightarrow> (files w)(resolve_output_path p op \<mapsto> c))"
      by auto
    have "export_result L p i (resolve_output_path p op) (files w) \<noteq> Some (Exported a)" for a
      using se first_error_None[of L p i "resolve_output_path p op" "files w"] by auto
    with f True have "files w' = files w
        \<or> (\<exists>e c. path_exists w p
              \<and> export_result L p i (resolve_output_path p op) (files w) = Some (ExportRaised e (Some c))
              \<and> files w' = (files w)(resolve_output_path p op \<mapsto> c))"
      by (auto simp: written_def split: option.splits export_outcome.splits)
    with r d show ?thesis by simp
  qed
qed

theorem writes_of_a_conversion_witness:
  "convert_pytorch_to_onnx demo_libs ''m.jit'' (Some 48) (Some ''m.onnx'') bare_world
     = (True, snd (convert_pytorch_to_onnx demo_libs ''m.jit'' (Some 48) (Some ''m.onnx'') bare_world))
   \<and> export_result demo_libs ''m.jit'' (Some 48) ''m.onnx'' (files bare_world) = Some (Exported ''ONNX'')
   \<and> files (snd (convert_pytorch_to_onnx demo_libs ''m.jit'' (Some 48) (Some ''m.onnx'') bare_world))
       = (files bare_world)(''m.onnx'' \<mapsto> ''ONNX'')"
proof -
  have t: "fst (convert_pytorch_to_onnx demo_libs ''m.jit'' (Some 48) (Some ''m.onnx'') bare_world)"
    by (simp add: convert_True_iff path_exists_def bare_world_def first_error_def demo_libs_def
        chosen_size_def resolve_output_path_def)
  then have h: "convert_pytorch_to_onnx demo_libs ''m.jit'' (Some 48) (Some ''m.onnx'') bare_world
     = (True, snd (convert_pytorch_to_onnx demo_libs ''m.jit'' (Some 48) (Some ''m.onnx'') bare_world))"
    by (simp add: prod_eq_iff)
  have e: "export_result demo_libs ''m.jit'' (Some 48) ''m.onnx'' (files bare_world) = Some (Exported ''ONNX'')"
    by (simp add: export_result_def demo_libs_def bare_world_def chosen_size_def)
  show ?thesis
    using h e writes_of_a_conversion[OF h] by (simp add: resolve_output_path_def)
qed

text \<open>
  Claim C6, as stated: every error of the five steps, verification included, becomes a
  failed result. It fails for the verification: a verifier that rejects the model leaves
  the result \<open>True\<close>.
\<close>

theorem verification_error_counterexample:
  "verify_error failing_check_libs ''m.onnx''
     (files (snd (convert_pytorch_to_onnx failing_check_libs ''m.jit'' (Some 48) (Some ''m.onnx'')
                    bare_world)))
     = Some (OtherException ''bad graph'')
   \<and> fst (convert_pytorch_to_onnx failing_check_libs ''m.jit'' (Some 48) (Some ''m.onnx'')
            bare_world) = True"
  by (simp add: convert_pytorch_to_onnx_def conversion_body_def export_step_def
      resolve_input_size_def resolve_output_path_def path_exists_def bare_world_def
      failing_check_libs_def demo_libs_def verify_error_def Let_def)

text \<open>
  Claim C6, amended. For an existing source: when one of the steps load, input synthesis,
  forward pass and export raises \<open>e\<close>, first at step \<open>s\<close>, the conversion returns
  \<open>False\<close>, its last printed line is the error message with the text of \<open>e\<close>, and the
  library calls it made are those of the steps up to \<open>s\<close> and no later one. When none of the
  four raises, it returns \<open>True\<close>, the calls are those of the four steps followed by one to
  three calls of the verification, and the output ends with the report of the
  verification: a warning when it raised. The function returns in every case, so nothing
  propagates to its caller.
\<close>

theorem errors_caught_at_conversion_boundary:
  assumes "path_exists w p"
  shows "(first_error L p i (resolve_output_path p op) (files w) = Some (s, e) \<longrightarrow>
            fst (convert_pytorch_to_onnx L p i op w) = False
            \<and> last (out (snd (convert_pytorch_to_onnx L p i op w)))
                = ''Error during conversion: '' @ message e
            \<and> new_calls w (snd (convert_pytorch_to_onnx L p i op w))
                = take (step_number s) (step_calls p i (resolve_output_path p op)))
       \<and> (first_error L p i (resolve_output_path p op) (files w) = None \<longrightarrow>
            fst (convert_pytorch_to_onnx L p i op w) = True
            \<and> (\<exists>k. 0 < k \<and> k \<le> 3
                 \<and> new_calls w (snd (convert_pytorch_to_onnx L p i op w))
                     = step_calls p i (resolve_output_path p op)
                         @ take k (verify_calls (resolve_output_path p op)))
            \<and> (\<exists>pre. out (snd (convert_pytorch_to_onnx L p i op w))
                 = pre @ verify_report (verify_error L (resolve_output_path p op)
                          (files (snd (convert_pytorch_to_onnx L p i op w))))))"
proof (intro conjI impI)
  assume se: "first_error L p i (resolve_output_path p op) (files w) = Some (s, e)"
  from convert_failure[OF assms se] obtain w' where
    w': "convert_pytorch_to_onnx L p i op w = (False, w')"
      "calls w' = calls w @ take (step_number s) (step_calls p i (resolve_output_path p op))"
      "last (out w') = ''Error during conversion: '' @ message e"
    by blast
  from w' show "fst (convert_pytorch_to_onnx L p i op w) = False" by simp
  from w' show "last (out (snd (convert_pytorch_to_onnx L p i op w)))
                  = ''Error during conversion: '' @ message e" by simp
  from w' show "new_calls w (snd (convert_pytorch_to_onnx L p i op w))
                  = take (step_number s) (step_calls p i (resolve_output_path p op))" by simp
next
  assume "first_error L p i (resolve_output_path p op) (files w) = None"
  then obtain a where a: "export_result L p i (resolve_output_path p op) (files w) = Some (Exported a)"
    by (auto simp: first_error_None)
  from convert_success[OF assms a] obtain w' k where
    w': "convert_pytorch_to_onnx L p i op w = (True, w')" "0 < k" "k \<le> 3"
      "calls w' = calls w @ step_calls p i (resolve_output_path p op)
                    @ take k (verify_calls (resolve_output_path p op))"
      "\<exists>pre. out w' = pre @ verify_report (verify_error L (resolve_output_path p op) (files w'))"
    by blast
  from w' show "fst (convert_pytorch_to_onnx L p i op w) = True" by simp
  from w' show "\<exists>k. 0 < k \<and> k \<le> 3
                 \<and> new_calls w (snd (convert_pytorch_to_onnx L p i op w))
                     = step_calls p i (resolve_output_path p op)
                         @ take k (verify_calls (resolve_output_path p op))"
    by (intro exI[of _ k]) simp
  from w' show "\<exists>pre. out (snd (convert_pytorch_to_onnx L p i op w))
                 = pre @ verify_report (verify_error L (resolve_output_path p op)
                          (files (snd (convert_pytorch_to_onnx L p i op w))))"
    by simp
qed

theorem errors_caught_at_conversion_boundary_witness:
  "path_exists demo_world ''/s/policy/g1/policy.pt''
   \<and> first_error demo_libs ''/s/policy/g1/policy.pt'' None
        (resolve_output_path ''/s/policy/g1/policy.pt'' None) (files demo_world)
       = Some (ForwardPass, OtherException ''size mismatch'')
   \<and> fst (convert_pytorch_to_onnx demo_libs ''/s/policy/g1/policy.pt'' None None demo_world) = False
   \<and> last (out (snd (convert_pytorch_to_onnx demo_libs ''/s/policy/g1/policy.pt'' None None demo_world)))
       = ''Error during conversion: size mismatch''
   \<and> new_calls demo_world
        (snd (convert_pytorch_to_onnx demo_libs ''/s/policy/g1/policy.pt'' None None demo_world))
       = [JitLoad ''/s/policy/g1/policy.pt'', Randn [1, 48] ''float32'', Forward [1, 48]]"
proof -
  have h1: "path_exists demo_world ''/s/policy/g1/policy.pt''"
    by (simp add: path_exists_def demo_world_def)
  have h2: "first_error demo_libs ''/s/policy/g1/policy.pt'' None
        (resolve_output_path ''/s/policy/g1/policy.pt'' None) (files demo_world)
       = Some (ForwardPass, OtherException ''size mismatch'')"
    by (simp add: first_error_def demo_libs_def demo_world_def chosen_size_def)
  show ?thesis
    using h1 h2 errors_caught_at_conversion_boundary[OF h1, of demo_libs None None ForwardPass
        "OtherException ''size mismatch''"]
    by (simp add: step_calls_def chosen_size_def)
qed

text \<open>
  Claim C10. For an existing source path in which \<^verbatim>\<open>.pt\<close> does not occur and with no
  output path given, the derived output path is the source path itself, and a conversion
  that returns \<open>True\<close> has put the exported artifact in the place of the source file.
\<close>

theorem source_overwritten_without_pt:
  assumes "path_exists w p" and "\<not> occurs_in ''.pt'' p"
  shows "resolve_output_path p None = p
         \<and> (fst (convert_pytorch_to_onnx L p i None w) \<longrightarrow>
              (\<exists>a. export_result L p i p (files w) = Some (Exported a)
                 \<and> files (snd (convert_pytorch_to_onnx L p i None w)) = (files w)(p \<mapsto> a)))"
proof -
  have r: "resolve_output_path p None = p"
    using assms(2) by (simp add: resolve_output_path_def derive_output_path_def replace_no_occurrence)
  show ?thesis
  proof (intro conjI impI)
    show "resolve_output_path p None = p" by (rule r)
  next
    assume "fst (convert_pytorch_to_onnx L p i None w)"
    then have "first_error L p i p (files w) = None"
      by (simp add: convert_True_iff r)
    then obtain a where a: "export_result L p i p (files w) = Some (Exported a)"
      by (auto simp: first_error_None)
    with convert_success[OF assms(1), of L i None a] r
    show "\<exists>a. export_result L p i p (files w) = Some (Exported a)
            \<and> files (snd (convert_pytorch_to_onnx L p i None w)) = (files w)(p \<mapsto> a)"
      by auto
  qed
qed

theorem source_overwritten_without_pt_witness:
  "path_exists bare_world ''m.jit'' \<and> \<not> occurs_in ''.pt'' ''m.jit''
   \<and> resolve_output_path ''m.jit'' None = ''m.jit''
   \<and> fst (convert_pytorch_to_onnx demo_libs ''m.jit'' None None bare_world)
   \<and> files bare_world ''m.jit'' = Some ''TS48''
   \<and> files (snd (convert_pytorch_to_onnx demo_libs ''m.jit'' None None bare_world)) ''m.jit''
       = Some ''ONNX''"
proof -
  have h1: "path_exists bare_world ''m.jit''"
    by (simp add: path_exists_def bare_world_def)
  have h2: "\<not> occurs_in ''.pt'' ''m.jit''"
    by simp
  have t: "fst (convert_pytorch_to_onnx demo_libs ''m.jit'' None None bare_world)"
    by (simp add: convert_True_iff path_exists_def bare_world_def first_error_def demo_libs_def
        chosen_size_def resolve_output_path_def derive_output_path_def)
  have e: "export_result demo_libs ''m.jit'' None ''m.jit'' (files bare_world) = Some (Exported ''ONNX'')"
    by (simp add: export_result_def demo_libs_def bare_world_def chosen_size_def)
  have f: "files bare_world ''m.jit'' = Some ''TS48''"
    by (simp add: bare_world_def)
  show ?thesis
    using h1 h2 t e f source_overwritten_without_pt[OF h1 h2, of demo_libs None] by auto
qed

text \<open>
  Claim C9. Two conversions with the same arguments, whatever the states they start in
  and whatever the libraries draw or return, call the exporter in the same way: the same
  output path, an input of the same shape \<open>[1, input_size]\<close> and type, and the same fixed
  settings, namely parameters embedded, constant folding on, opset 11, the input named
  \<^verbatim>\<open>observations\<close>, the output named \<^verbatim>\<open>actions\<close> and axis 0 of both declared as the
  variable batch dimension.
\<close>

theorem exports_use_the_same_fixed_settings:
  assumes "OnnxExport outp1 sh1 dt1 st1 \<in> set (new_calls w1 (snd (convert_pytorch_to_onnx L1 p i op w1)))"
    and "OnnxExport outp2 sh2 dt2 st2 \<in> set (new_calls w2 (snd (convert_pytorch_to_onnx L2 p i op w2)))"
  shows "st1 = st2 \<and> outp1 = outp2 \<and> sh1 = sh2 \<and> dt1 = dt2
         \<and> outp1 = resolve_output_path p op \<and> sh1 = [1, chosen_size i]
         \<and> export_params st1 \<and> do_constant_folding st1 \<and> opset_version st1 = 11
         \<and> input_names st1 = [''observations''] \<and> output_names st1 = [''actions'']
         \<and> dynamic_axes st1 = [(''observations'', [(0, ''batch_size'')]),
                                (''actions'', [(0, ''batch_size'')])]"
  using export_call_fixed[OF assms(1)] export_call_fixed[OF assms(2)]
  by (simp add: onnx_export_settings_def)

theorem exports_use_the_same_fixed_settings_witness:
  "OnnxExport ''m.onnx'' [1, 48] ''float32'' onnx_export_settings
     \<in> set (new_calls bare_world
              (snd (convert_pytorch_to_onnx demo_libs ''m.jit'' (Some 48) (Some ''m.onnx'') bare_world)))
   \<and> OnnxExport ''m.onnx'' [1, 48] ''float32'' onnx_export_settings
     \<in> set (new_calls
              (snd (convert_pytorch_to_onnx demo_libs ''m.jit'' (Some 48) (Some ''m.onnx'') bare_world))
              (snd (convert_pytorch_to_onnx demo_libs ''m.jit'' (Some 48) (Some ''m.onnx'')
                 (snd (convert_pytorch_to_onnx demo_libs ''m.jit'' (Some 48) (Some ''m.onnx'')
                    bare_world)))))
   \<and> opset_version onnx_export_settings = 11
   \<and> input_names onnx_export_settings = [''observations'']
   \<and> output_names onnx_export_settings = [''actions'']"
proof -
  let ?w1 = "snd (convert_pytorch_to_onnx demo_libs ''m.jit'' (Some 48) (Some ''m.onnx'') bare_world)"
  have r: "resolve_output_path ''m.jit'' (Some ''m.onnx'') = ''m.onnx''"
    by (simp add: resolve_output_path_def)
  have c: "chosen_size (Some 48) = 48"
    by (simp add: chosen_size_def)
  have e0: "path_exists bare_world ''m.jit''"
    by (simp add: path_exists_def bare_world_def)
  have x0: "export_result demo_libs ''m.jit'' (Some 48) (resolve_output_path ''m.jit'' (Some ''m.onnx''))
      (files bare_world) = Some (Exported ''ONNX'')"
    by (simp add: export_result_def demo_libs_def bare_world_def chosen_size_def r)
  have e1: "path_exists ?w1 ''m.jit''"
    unfolding path_exists_def demo_first_run by (simp add: bare_world_def)
  have x1: "export_result demo_libs ''m.jit'' (Some 48) (resolve_output_path ''m.jit'' (Some ''m.onnx''))
      (files ?w1) = Some (Exported ''ONNX'')"
    unfolding demo_first_run r
    by (simp add: export_result_def demo_libs_def bare_world_def chosen_size_def)
  have h1: "OnnxExport ''m.onnx'' [1, 48] ''float32'' onnx_export_settings
     \<in> set (new_calls bare_world ?w1)"
    using export_call_made[OF e0 x0] by (simp add: r c)
  have h2: "OnnxExport ''m.onnx'' [1, 48] ''float32'' onnx_export_settings
     \<in> set (new_calls ?w1
              (snd (convert_pytorch_to_onnx demo_libs ''m.jit'' (Some 48) (Some ''m.onnx'') ?w1)))"
    using export_call_made[OF e1 x1] by (simp add: r c)
  show ?thesis
    using h1 h2 exports_use_the_same_fixed_settings[OF h1 h2] by simp
qed

section \<open>Properties of the batch loop\<close>

lemma call_convert_result [simp]:
  "fst (call_convert L p i op w) = fst (convert_pytorch_to_onnx L p i op w)"
  by (simp add: call_convert_def split_beta)

lemma call_convert_converts [simp]:
  "converts (snd (call_convert L p i op w))
     = converts w @ [(p, i, op, fst (convert_pytorch_to_onnx L p i op w))]"
  by (simp add: call_convert_def split_beta)

lemma call_convert_dirs [simp]:
  "dirs (snd (call_convert L p i op w)) = dirs w"
  by (simp add: call_convert_def split_beta)

lemma convert_one_fields:
  "total_count (convert_one L i p st) = total_count st + 1"
  "success_count (convert_one L i p st) = success_count st + (if one_result L i p st then 1 else 0)"
  "converts (current (convert_one L i p st))
     = converts (current st) @ [(p, i, None, one_result L i p st)]"
  "dirs (current (convert_one L i p st)) = dirs (current st)"
  by (simp_all add: convert_one_def one_result_def Let_def split_beta)

lemma entries_loop_log:
  "\<exists>new. converts (current (entries_loop L i es st)) = converts (current st) @ new
        \<and> map arguments new
            = map (\<lambda>(r, f). (path_join r f, i, None)) (filter (\<lambda>(r, f). endswith f ''.pt'') es)
        \<and> total_count (entries_loop L i es st) = total_count st + int (length new)
        \<and> success_count (entries_loop L i es st)
            = success_count st + int (length (filter returned new))"
proof (induction es arbitrary: st)
  case Nil
  show ?case by simp
next
  case (Cons x es)
  obtain r f where x: "x = (r, f)" by (cases x)
  show ?case
  proof (cases "endswith f ''.pt''")
    case False
    with Cons.IH[of st] x show ?thesis by simp
  next
    case True
    let ?st1 = "convert_one L i (path_join r f) st"
    from Cons.IH[of ?st1] obtain new where new:
      "converts (current (entries_loop L i es ?st1)) = converts (current ?st1) @ new"
      "map arguments new
         = map (\<lambda>(r, f). (path_join r f, i, None)) (filter (\<lambda>(r, f). endswith f ''.pt'') es)"
      "total_count (entries_loop L i es ?st1) = total_count ?st1 + int (length new)"
      "success_count (entries_loop L i es ?st1)
         = success_count ?st1 + int (length (filter returned new))"
      by blast
    let ?c = "(path_join r f, i, None, one_result L i (path_join r f) st)"
    have "converts (current (entries_loop L i (x # es) st)) = converts (current st) @ (?c # new)"
      using new(1) x True by (simp add: convert_one_fields)
    moreover have "map arguments (?c # new)
        = map (\<lambda>(r, f). (path_join r f, i, None)) (filter (\<lambda>(r, f). endswith f ''.pt'') (x # es))"
      using new(2) x True by (simp add: arguments_def)
    moreover have "total_count (entries_loop L i (x # es) st)
        = total_count st + int (length (?c # new))"
      using new(3) x True by (simp add: convert_one_fields)
    moreover have "success_count (entries_loop L i (x # es) st)
        = success_count st + int (length (filter returned (?c # new)))"
      using new(4) x True by (simp add: convert_one_fields returned_def)
    ultimately show ?thesis by blast
  qed
qed

lemma entries_loop_invariant:
  "0 \<le> success_count st \<Longrightarrow> success_count st \<le> total_count st \<Longrightarrow>
     0 \<le> success_count (entries_loop L i es st)
     \<and> success_count (entries_loop L i es st) \<le> total_count (entries_loop L i es st)"
proof (induction es arbitrary: st)
  case Nil
  then show ?case by simp
next
  case (Cons x es)
  obtain r f where x: "x = (r, f)" by (cases x)
  show ?case
  proof (cases "endswith f ''.pt''")
    case False
    with Cons x show ?thesis by simp
  next
    case True
    have "0 \<le> success_count (convert_one L i (path_join r f) st)"
      "success_count (convert_one L i (path_join r f) st)
         \<le> total_count (convert_one L i (path_join r f) st)"
      using Cons.prems by (simp_all add: convert_one_fields)
    from Cons.IH[OF this] x True show ?thesis by simp
  qed
qed

lemma entries_loop_append:
  "entries_loop L i (xs @ ys) st = entries_loop L i ys (entries_loop L i xs st)"
  by (induction xs arbitrary: st) auto

lemma files_loop_entries:
  "files_loop L i root fs st = entries_loop L i (map (Pair root) fs) st"
  by (induction fs arbitrary: st) auto

lemma walk_loop_entries:
  "walk_loop L i ts st = entries_loop L i (walk_entries ts) st"
  by (induction ts arbitrary: st)
     (auto simp: walk_entries_def entries_loop_append files_loop_entries)

lemma walk_entries_Cons:
  "walk_entries ((root, ds, fs) # ts) = map (Pair root) fs @ walk_entries ts"
  by (simp add: walk_entries_def)

lemma walk_entries_append:
  "walk_entries (xs @ ys) = walk_entries xs @ walk_entries ys"
  by (simp add: walk_entries_def)

lemma walk_entries_concat:
  "walk_entries (concat tss) = concat (map walk_entries tss)"
  by (induction tss) (simp_all add: walk_entries_append, simp add: walk_entries_def)

lemma walk_entries_walk:
  "walk_entries (walk root t) = tree_entries root t"
proof (induction root t rule: walk.induct)
  case (1 root fs subs)
  have eq: "concat (map (\<lambda>x. walk_entries (case x of (name, t) \<Rightarrow> walk (path_join root name) t)) subs)
      = concat (map (\<lambda>(name, t). tree_entries (path_join root name) t) subs)"
    by (rule arg_cong[where f = concat], rule map_cong[OF refl]) (use 1 in auto)
  have "walk_entries (walk root (Dir fs subs))
      = map (Pair root) fs
          @ concat (map (\<lambda>x. walk_entries (case x of (name, t) \<Rightarrow> walk (path_join root name) t)) subs)"
    by (simp add: walk_entries_Cons walk_entries_concat comp_def)
  also have "\<dots> = map (Pair root) fs
          @ concat (map (\<lambda>(name, t). tree_entries (path_join root name) t) subs)"
    by (simp only: eq)
  also have "\<dots> = tree_entries root (Dir fs subs)"
    by simp
  finally show ?case .
qed

lemma discovered_walk:
  "discovered w dir
     = map (\<lambda>(r, f). path_join r f)
         (filter (\<lambda>(r, f). endswith f ''.pt'') (walk_entries (os_walk w dir)))"
  by (cases "dirs w dir") (simp_all add: discovered_def os_walk_def walk_entries_walk, simp add: walk_entries_def)

lemma batch_convert_entries:
  "batch_convert L i dir w
     = entries_loop L i (walk_entries (os_walk w dir))
         \<lparr>current = w, success_count = 0, total_count = 0\<rparr>"
  by (simp add: batch_convert_def walk_loop_entries)

lemma batch_convert_log:
  "\<exists>new. converts (current (batch_convert L i dir w)) = converts w @ new
        \<and> map arguments new = map (\<lambda>p. (p, i, None)) (discovered w dir)
        \<and> total_count (batch_convert L i dir w) = int (length new)
        \<and> success_count (batch_convert L i dir w) = int (length (filter returned new))"
proof -
  from entries_loop_log[of L i "walk_entries (os_walk w dir)"
      "\<lparr>current = w, success_count = 0, total_count = 0\<rparr>"]
  obtain new where new:
    "converts (current (batch_convert L i dir w)) = converts w @ new"
    "map arguments new
       = map (\<lambda>(r, f). (path_join r f, i, None))
           (filter (\<lambda>(r, f). endswith f ''.pt'') (walk_entries (os_walk w dir)))"
    "total_count (batch_convert L i dir w) = int (length new)"
    "success_count (batch_convert L i dir w) = int (length (filter returned new))"
    by (auto simp: batch_convert_entries)
  have "map (\<lambda>(r, f). (path_join r f, i, None))
           (filter (\<lambda>(r, f). endswith f ''.pt'') (walk_entries (os_walk w dir)))
      = map (\<lambda>p. (p, i, None)) (discovered w dir)"
    by (simp add: discovered_walk split_beta comp_def)
  with new show ?thesis by auto
qed

lemma new_converts_append [simp]: "converts w' = converts w @ xs \<Longrightarrow> new_converts w w' = xs"
  by (simp add: new_converts_def)

lemma demo_discovered:
  "discovered demo_world ''/s/policy''
     = [''/s/policy/go2/policy.pt'', ''/s/policy/g1/policy.pt'', ''/s/policy/a1/policy.pt'']"
  by (simp add: discovered_def demo_world_def demo_tree_def path_join_def endswith_def
      suffix_to_prefix)

lemma demo_walk:
  "walk_entries (os_walk demo_world ''/s/policy'')
     = [(''/s/policy'', ''README''), (''/s/policy/go2'', ''policy.pt''),
        (''/s/policy/go2'', ''cfg.yaml''), (''/s/policy/g1'', ''policy.pt''),
        (''/s/policy/a1'', ''policy.pt'')]"
  by (simp add: walk_entries_def os_walk_def demo_world_def demo_tree_def path_join_def
      endswith_def suffix_to_prefix)

lemma demo_batch_counts:
  "total_count (batch_convert demo_libs None ''/s/policy'' demo_world) = 3
   \<and> success_count (batch_convert demo_libs None ''/s/policy'' demo_world) = 2"
  unfolding batch_convert_entries demo_walk
  by (simp add: convert_one_def call_convert_def convert_pytorch_to_onnx_def
      conversion_body_def export_step_def resolve_input_size_def resolve_output_path_def
      derive_output_path_def path_exists_def demo_world_def demo_libs_def Let_def
      path_join_def endswith_def suffix_to_prefix verify_onnx_def verify_body_def)

lemma demo_policy_dir:
  "path_join (dirname ''/s/c.py'') ''policy'' = ''/s/policy''"
  by (simp add: dirname_def rstrip_sep_def path_join_def endswith_def suffix_to_prefix)

lemma missing_dir_discovers_nothing:
  "\<not> path_exists w dir \<Longrightarrow> discovered w dir = []"
  by (simp add: path_exists_def discovered_def)

section \<open>The claims about the batch and the command line\<close>

text \<open>
  Claim C4. After the batch, \<open>total_count\<close> is the number of model files discovered under
  the directory and \<open>success_count\<close> is the number of conversions that returned \<open>True\<close>;
  there is one conversion per discovered file, whatever the conversions before it
  returned, so a failure does not end the batch. \<open>0 \<le> success_count \<le> total_count\<close> holds
  at the end and after every number \<open>k\<close> of entries the two loops have gone through.
\<close>

theorem batch_counts:
  "total_count (batch_convert L i dir w) = int (length (discovered w dir))
   \<and> length (new_converts w (current (batch_convert L i dir w))) = length (discovered w dir)
   \<and> success_count (batch_convert L i dir w)
       = int (length (filter returned (new_converts w (current (batch_convert L i dir w)))))
   \<and> 0 \<le> success_count (batch_convert L i dir w)
   \<and> success_count (batch_convert L i dir w) \<le> total_count (batch_convert L i dir w)
   \<and> batch_convert L i dir w
       = entries_loop L i (walk_entries (os_walk w dir))
           \<lparr>current = w, success_count = 0, total_count = 0\<rparr>
   \<and> 0 \<le> success_count (entries_loop L i (take k (walk_entries (os_walk w dir)))
                            \<lparr>current = w, success_count = 0, total_count = 0\<rparr>)
   \<and> success_count (entries_loop L i (take k (walk_entries (os_walk w dir)))
                       \<lparr>current = w, success_count = 0, total_count = 0\<rparr>)
       \<le> total_count (entries_loop L i (take k (walk_entries (os_walk w dir)))
                         \<lparr>current = w, success_count = 0, total_count = 0\<rparr>)"
proof -
  from batch_convert_log[of L i dir w] obtain new where new:
    "converts (current (batch_convert L i dir w)) = converts w @ new"
    "map arguments new = map (\<lambda>p. (p, i, None)) (discovered w dir)"
    "total_count (batch_convert L i dir w) = int (length new)"
    "success_count (batch_convert L i dir w) = int (length (filter returned new))"
    by blast
  have len: "length new = length (discovered w dir)"
    using arg_cong[OF new(2), of length] by simp
  have nc: "new_converts w (current (batch_convert L i dir w)) = new"
    using new(1) by simp
  have le: "length (filter returned new) \<le> length new"
    by simp
  have inv: "0 \<le> success_count (entries_loop L i es \<lparr>current = w, success_count = 0, total_count = 0\<rparr>)
      \<and> success_count (entries_loop L i es \<lparr>current = w, success_count = 0, total_count = 0\<rparr>)
          \<le> total_count (entries_loop L i es \<lparr>current = w, success_count = 0, total_count = 0\<rparr>)" for es
    by (rule entries_loop_invariant) simp_all
  show ?thesis
    using new(3,4) len nc le inv[of "take k (walk_entries (os_walk w dir))"]
    by (simp add: batch_convert_entries)
qed

theorem batch_counts_witness:
  "discovered demo_world ''/s/policy''
     = [''/s/policy/go2/policy.pt'', ''/s/policy/g1/policy.pt'', ''/s/policy/a1/policy.pt'']
   \<and> total_count (batch_convert demo_libs None ''/s/policy'' demo_world) = 3
   \<and> success_count (batch_convert demo_libs None ''/s/policy'' demo_world) = 2
   \<and> length (filter returned
        (new_converts demo_world (current (batch_convert demo_libs None ''/s/policy'' demo_world))))
       = 2"
proof -
  have "success_count (batch_convert demo_libs None ''/s/policy'' demo_world)
      = int (length (filter returned
          (new_converts demo_world (current (batch_convert demo_libs None ''/s/policy'' demo_world)))))"
    using batch_counts[of demo_libs None "''/s/policy''" demo_world 0] by blast
  with demo_batch_counts have "length (filter returned
        (new_converts demo_world (current (batch_convert demo_libs None ''/s/policy'' demo_world))))
       = 2"
    by linarith
  with demo_batch_counts demo_discovered show ?thesis by blast
qed

text \<open>
  Claim C7. In batch mode the calls of the conversion are, in order, one for each entry
  of the directory tree whose name ends with \<^verbatim>\<open>.pt\<close>, each with the input size of the
  command line and with no output path; the \<^verbatim>\<open>--output_path\<close> argument has no effect on
  the run.
\<close>

theorem batch_visits_each_model_once:
  assumes "arg_batch_convert args"
  shows "map arguments (new_converts w (snd (main L script args w)))
           = map (\<lambda>p. (p, arg_input_size args, None))
               (discovered w (path_join (dirname script) ''policy''))
         \<and> main L script (args\<lparr>arg_output_path := op\<rparr>) w = main L script args w"
proof (intro conjI)
  show "main L script (args\<lparr>arg_output_path := op\<rparr>) w = main L script args w"
    using assms by (simp add: main_def Let_def)
next
  let ?dir = "path_join (dirname script) ''policy''"
  show "map arguments (new_converts w (snd (main L script args w)))
           = map (\<lambda>p. (p, arg_input_size args, None)) (discovered w ?dir)"
  proof (cases "path_exists w ?dir")
    case False
    then have "snd (main L script args w)
        = print (''Error: Policy directory '' @ ?dir @ '' not found'') w"
      using assms by (simp add: main_def Let_def)
    then have "new_converts w (snd (main L script args w)) = []"
      by (simp add: new_converts_def)
    with False show ?thesis
      by (simp add: missing_dir_discovers_nothing)
  next
    case True
    from batch_convert_log[of L "arg_input_size args" ?dir w] obtain new where new:
      "converts (current (batch_convert L (arg_input_size args) ?dir w)) = converts w @ new"
      "map arguments new = map (\<lambda>p. (p, arg_input_size args, None)) (discovered w ?dir)"
      by blast
    have "converts (snd (main L script args w)) = converts w @ new"
      using assms True new(1) by (simp add: main_def Let_def)
    then have "new_converts w (snd (main L script args w)) = new"
      by simp
    with new(2) show ?thesis by simp
  qed
qed

theorem batch_visits_each_model_once_witness:
  "arg_batch_convert \<lparr>arg_model_path = ''x'', arg_input_size = Some 48,
      arg_output_path = None, arg_batch_convert = True\<rparr>
   \<and> map arguments (new_converts demo_world
        (snd (main demo_libs ''/s/c.py''
           \<lparr>arg_model_path = ''x'', arg_input_size = Some 48,
              arg_output_path = None, arg_batch_convert = True\<rparr> demo_world)))
       = [(''/s/policy/go2/policy.pt'', Some 48, None),
          (''/s/policy/g1/policy.pt'', Some 48, None),
          (''/s/policy/a1/policy.pt'', Some 48, None)]
   \<and> main demo_libs ''/s/c.py''
         \<lparr>arg_model_path = ''x'', arg_input_size = Some 48,
            arg_output_path = Some ''out.onnx'', arg_batch_convert = True\<rparr> demo_world
       = main demo_libs ''/s/c.py''
           \<lparr>arg_model_path = ''x'', arg_input_size = Some 48,
              arg_output_path = None, arg_batch_convert = True\<rparr> demo_world"
proof -
  have h: "arg_batch_convert \<lparr>arg_model_path = ''x'', arg_input_size = Some 48,
      arg_output_path = None, arg_batch_convert = True\<rparr>"
    by simp
  show ?thesis
    using h batch_visits_each_model_once[OF h, of demo_world demo_libs "''/s/c.py''" "Some ''out.onnx''"]
    by (simp add: demo_policy_dir demo_discovered)
qed

text \<open>
  Claim C8, as stated: in batch mode the exit status tells whether the policy directory
  was found. It does not: the run that finds the directory and the run that misses it
  both end with status 0.
\<close>

theorem missing_directory_exit_counterexample:
  "path_exists demo_world (path_join (dirname ''/s/c.py'') ''policy'')
   \<and> \<not> path_exists bare_world (path_join (dirname ''/s/c.py'') ''policy'')
   \<and> fst (main demo_libs ''/s/c.py''
        \<lparr>arg_model_path = ''x'', arg_input_size = None,
           arg_output_path = None, arg_batch_convert = True\<rparr> demo_world) = 0
   \<and> fst (main demo_libs ''/s/c.py''
        \<lparr>arg_model_path = ''x'', arg_input_size = None,
           arg_output_path = None, arg_batch_convert = True\<rparr> bare_world) = 0"
proof -
  have "path_exists demo_world ''/s/policy''"
    by (simp add: path_exists_def demo_world_def)
  moreover have "\<not> path_exists bare_world ''/s/policy''"
    by (simp add: path_exists_def bare_world_def)
  ultimately show ?thesis
    by (simp add: demo_policy_dir main_def Let_def)
qed

text \<open>
  Claim C8, amended. In single-file mode the exit status is 0 when the conversion returns
  \<open>True\<close> and 1 when it returns \<open>False\<close>. In batch mode it is 0 in every case, whether or
  not the policy directory exists and whatever the conversions return; when the directory
  exists the last line printed is the summary with the two counters, and when it is
  missing the only line printed is the error.
\<close>

theorem exit_status_of_main:
  "(\<not> arg_batch_convert args \<longrightarrow>
      fst (main L script args w)
        = (if fst (convert_pytorch_to_onnx L (arg_model_path args) (arg_input_size args)
                     (arg_output_path args) w) then 0 else 1))
   \<and> (arg_batch_convert args \<longrightarrow>
        fst (main L script args w) = 0
        \<and> (path_exists w (path_join (dirname script) ''policy'') \<longrightarrow>
             out (snd (main L script args w))
               = out (current (batch_convert L (arg_input_size args)
                                 (path_join (dirname script) ''policy'') w))
                 @ [CHR 0x0A # ''Batch conversion completed: ''
                      @ str_int (success_count (batch_convert L (arg_input_size args)
                                   (path_join (dirname script) ''policy'') w))
                      @ ''/''
                      @ str_int (total_count (batch_convert L (arg_input_size args)
                                   (path_join (dirname script) ''policy'') w))
                      @ '' models converted successfully''])
        \<and> (\<not> path_exists w (path_join (dirname script) ''policy'') \<longrightarrow>
             out (snd (main L script args w))
               = out w @ [''Error: Policy directory '' @ path_join (dirname script) ''policy''
                            @ '' not found'']))"
  by (simp add: main_def Let_def split_beta summary_line_def)

theorem exit_status_of_main_witness:
  "arg_batch_convert \<lparr>arg_model_path = ''x'', arg_input_size = None,
      arg_output_path = None, arg_batch_convert = True\<rparr>
   \<and> path_exists demo_world (path_join (dirname ''/s/c.py'') ''policy'')
   \<and> fst (main demo_libs ''/s/c.py''
        \<lparr>arg_model_path = ''x'', arg_input_size = None,
           arg_output_path = None, arg_batch_convert = True\<rparr> demo_world) = 0
   \<and> last (out (snd (main demo_libs ''/s/c.py''
        \<lparr>arg_model_path = ''x'', arg_input_size = None,
           arg_output_path = None, arg_batch_convert = True\<rparr> demo_world)))
       = CHR 0x0A # ''Batch conversion completed: 2/3 models converted successfully''
   \<and> \<not> arg_batch_convert \<lparr>arg_model_path = ''nope.pt'', arg_input_size = None,
      arg_output_path = None, arg_batch_convert = False\<rparr>
   \<and> fst (main demo_libs ''/s/c.py''
        \<lparr>arg_model_path = ''nope.pt'', arg_input_size = None,
           arg_output_path = None, arg_batch_convert = False\<rparr> demo_world) = 1"
proof -
  have h1: "path_exists demo_world (path_join (dirname ''/s/c.py'') ''policy'')"
    by (simp add: demo_policy_dir path_exists_def demo_world_def)
  have h2: "\<not> fst (convert_pytorch_to_onnx demo_libs ''nope.pt'' None None demo_world)"
    by (simp add: convert_True_iff path_exists_def demo_world_def)
  show ?thesis
    using h1 h2 demo_batch_counts
      exit_status_of_main[of "\<lparr>arg_model_path = ''x'', arg_input_size = None,
        arg_output_path = None, arg_batch_convert = True\<rparr>" demo_libs "''/s/c.py''" demo_world]
      exit_status_of_main[of "\<lparr>arg_model_path = ''nope.pt'', arg_input_size = None,
        arg_output_path = None, arg_batch_convert = False\<rparr>" demo_libs "''/s/c.py''" demo_world]
    by (simp add: demo_policy_dir str_int_def str_nat.simps digit_char_def)
qed

end
